theory Spec2Isabelle
  imports Main
begin

section \<open>Host types as seen through reflection\<close>

text \<open>
  The kinds of \<^verbatim>\<open>reflect.Kind\<close>. The constructors carry a leading \<open>K\<close>; the
  rest of the name is Go's.
\<close>

datatype Kind =
    KInvalid | KBool
  | KInt | KInt8 | KInt16 | KInt32 | KInt64
  | KUint | KUint8 | KUint16 | KUint32 | KUint64 | KUintptr
  | KFloat32 | KFloat64 | KComplex64 | KComplex128
  | KArray | KChan | KFunc | KInterface | KMap | KPtr | KSlice | KString | KStruct
  | KUnsafePointer

text \<open>
  A \<^verbatim>\<open>reflect.Type\<close>, as far as the code looks at it: its kind, its name, the
  element type of a slice, array or pointer, and the fields of a struct. Two types are
  the same type when these agree; the model does not tell apart two types of
  different packages that agree in all of them. A field is what \<^verbatim>\<open>reflect.StructField\<close> gives:
  the name, the type, whether the field is embedded, and the text of the
  \<^verbatim>\<open>orm\<close> struct tag (\<^verbatim>\<open>field.Tag.Get("orm")\<close>).
\<close>

datatype GoType =
    Prim Kind string
  | SliceT GoType
  | ArrayT GoType
  | PtrT GoType
  | StructT string "StructField list"
and StructField =
    StructField (FName: string) (FType: GoType) (Anonymous: bool) (Tag: string)

fun kindOf :: "GoType \<Rightarrow> Kind" where
  "kindOf (Prim k n) = k"
| "kindOf (SliceT t) = KSlice"
| "kindOf (ArrayT t) = KArray"
| "kindOf (PtrT t) = KPtr"
| "kindOf (StructT n fs) = KStruct"

text \<open>\<^verbatim>\<open>Type.Name()\<close>: the empty string for an unnamed composite type.\<close>

fun typeName :: "GoType \<Rightarrow> string" where
  "typeName (Prim k n) = n"
| "typeName (SliceT t) = []"
| "typeName (ArrayT t) = []"
| "typeName (PtrT t) = []"
| "typeName (StructT n fs) = n"

text \<open>
  Modelled from the spec: \<^verbatim>\<open>nullBool\<close>, whose declaration is not in the source
  file: the boxed nullable bool, a struct type of its own.
\<close>

definition nullBool :: GoType where
  "nullBool = StructT ''NullBool''
     [StructField ''Bool'' (Prim KBool ''bool'') False [],
      StructField ''Valid'' (Prim KBool ''bool'') False []]"

text \<open>
  Modelled from the spec: \<^verbatim>\<open>nullFloat64\<close>, whose declaration is not in the source
  file: the boxed nullable float, a struct type of its own.
\<close>

definition nullFloat64 :: GoType where
  "nullFloat64 = StructT ''NullFloat64''
     [StructField ''Float64'' (Prim KFloat64 ''float64'') False [],
      StructField ''Valid'' (Prim KBool ''bool'') False []]"

text \<open>
  Modelled from the spec: \<^verbatim>\<open>nullInt64\<close>, whose declaration is not in the source
  file: the boxed nullable integer, a struct type of its own.
\<close>

definition nullInt64 :: GoType where
  "nullInt64 = StructT ''NullInt64''
     [StructField ''Int64'' (Prim KInt64 ''int64'') False [],
      StructField ''Valid'' (Prim KBool ''bool'') False []]"

text \<open>
  Modelled from the spec: \<^verbatim>\<open>nullString\<close>, whose declaration is not in the source
  file: the boxed nullable string, a struct type of its own.
\<close>

definition nullString :: GoType where
  "nullString = StructT ''NullString''
     [StructField ''String'' (Prim KString ''string'') False [],
      StructField ''Valid'' (Prim KBool ''bool'') False []]"

text \<open>
  Modelled from the spec: \<^verbatim>\<open>timeType\<close>, whose declaration is not in the source
  file: the timestamp type, a struct type of its own.
\<close>

definition timeType :: GoType where
  "timeType = StructT ''Time''
     [StructField ''wall'' (Prim KUint64 ''uint64'') False [],
      StructField ''ext'' (Prim KInt64 ''int64'') False []]"

section \<open>Errors\<close>

text \<open>
  Modelled from the spec: the type \<^verbatim>\<open>conType\<close>, whose declaration is not in the
  source file: the four namespaces of constraint names, and \<open>none\<close>, which
  \<^verbatim>\<open>hasConstraint\<close> returns when it finds nothing.
\<close>

datatype conType = none | index | unique | fk | check

text \<open>
  One constructor for each error the code builds (the messages are Chinese text with
  the values shown here as arguments), and \<open>Panic\<close> for a run-time panic of Go.
\<close>

datatype error =
    ErrInvalidKind
  | Panic
  | NameArity "string list"
  | UnknownTag string
  | MetaNameArity "string list"
  | MetaCheckArity "string list"
  | CheckExists string
  | ConstraintExists string conType
  | OCCOnAIOrNullable
  | OCCExists
  | OCCNotInt
  | OCCArity string "string list"
  | ParseBoolSyntax string
  | AtoiSyntax string
  | DefaultOnAI
  | DefaultOnPK
  | DefaultArity string "string list"
  | IndexArity string "string list"
  | PKHasDefault string
  | PKArity string "string list"
  | PKAfterAI
  | UniqueArity string "string list"
  | FKArity
  | FKExists string
  | AIHasDefault string
  | AIArity string "string list"
  | AINullable string
  | AINotInt
  | NullableArity string "string list"
  | LenArity string "string list"
  | SqlTypeNilCol
  | SqlTypeNilGoType
  | LengthRequired
  | UnsupportedElem Kind
  | UnsupportedType string
  | InvalidEngine
  | InvalidCharset

section \<open>The standard library functions the code calls\<close>

text \<open>\<^verbatim>\<open>strconv.Itoa\<close> and the verb \<^verbatim>\<open>%d\<close>: an integer in decimal.\<close>

fun natDigits :: "nat \<Rightarrow> string" where
  "natDigits n =
     (if n < 10 then [''0123456789'' ! n]
      else natDigits (n div 10) @ [''0123456789'' ! (n mod 10)])"

declare natDigits.simps [simp del]

definition Itoa :: "int \<Rightarrow> string" where
  "Itoa i = (if i < 0 then CHR ''-'' # natDigits (nat (- i)) else natDigits (nat i))"

text \<open>
  \<^verbatim>\<open>strconv.Atoi\<close>: an optional sign and at least one decimal digit; a value that
  does not fit Go's 64-bit \<^verbatim>\<open>int\<close> is an error.
\<close>

definition digitVal :: "char \<Rightarrow> nat option" where
  "digitVal c = map_of (zip ''0123456789'' [0, 1, 2, 3, 4, 5, 6, 7, 8, 9]) c"

fun digitsVal :: "nat \<Rightarrow> string \<Rightarrow> nat option" where
  "digitsVal acc [] = Some acc"
| "digitsVal acc (c # cs) =
     (case digitVal c of None \<Rightarrow> None | Some d \<Rightarrow> digitsVal (acc * 10 + d) cs)"

definition Atoi :: "string \<Rightarrow> error + int" where
  "Atoi s =
     (let neg = (s \<noteq> [] \<and> hd s = CHR ''-'');
          body = (if s \<noteq> [] \<and> (hd s = CHR ''-'' \<or> hd s = CHR ''+'') then tl s else s)
      in if body = [] then Inl (AtoiSyntax s)
         else case digitsVal 0 body of
                None \<Rightarrow> Inl (AtoiSyntax s)
              | Some n \<Rightarrow>
                  (let v = (if neg then - int n else int n)
                   in if v < - (2 ^ 63) \<or> 2 ^ 63 - 1 < v then Inl (AtoiSyntax s)
                      else Inr v))"

text \<open>\<^verbatim>\<open>strconv.ParseBool\<close>: twelve spellings, everything else is a syntax error.\<close>

definition ParseBool :: "string \<Rightarrow> error + bool" where
  "ParseBool str =
     (if str \<in> set [''1'', ''t'', ''T'', ''true'', ''TRUE'', ''True''] then Inr True
      else if str \<in> set [''0'', ''f'', ''F'', ''false'', ''FALSE'', ''False''] then Inr False
      else Inl (ParseBoolSyntax str))"

text \<open>
  \<^verbatim>\<open>strings.ToLower\<close> on the ASCII letters; every other byte is kept (the model
  does not lower letters outside ASCII).
\<close>

definition toLowerChar :: "char \<Rightarrow> char" where
  "toLowerChar c =
     (case map_of (zip ''ABCDEFGHIJKLMNOPQRSTUVWXYZ'' ''abcdefghijklmnopqrstuvwxyz'') c of
        None \<Rightarrow> c
      | Some l \<Rightarrow> l)"

definition ToLower :: "string \<Rightarrow> string" where
  "ToLower s = map toLowerChar s"

text \<open>
  \<^verbatim>\<open>unicode.IsLower(rune(b))\<close> for a byte \<open>b\<close>: the lower-case letters of Latin-1.
\<close>

definition IsLower :: "char \<Rightarrow> bool" where
  "IsLower c =
     (let n = (of_char c :: nat)
      in (97 \<le> n \<and> n \<le> 122) \<or> n = 181 \<or> (223 \<le> n \<and> n \<le> 246) \<or> (248 \<le> n \<and> n \<le> 255))"

section \<open>Columns, foreign keys and the model\<close>

text \<open>
  A pointer to a Column is an address: the index of the column in the store of the
  Model that created it (\<open>cells\<close> below). Two pointers are equal when the addresses
  are. \<open>None\<close> is the nil pointer.
\<close>

type_synonym addr = nat

text \<open>
  Modelled from the spec: the struct \<^verbatim>\<open>Column\<close>, whose declaration is not in the
  source file: name, length parameters, nullability, host type, and the presence and
  value of a default. The fields have the names under which the code reads and writes
  them.
\<close>

record Column =
  Name :: string
  Len1 :: int
  Len2 :: int
  Nullable :: bool
  GoType :: "GoType option"
  HasDefault :: bool
  Default :: string

text \<open>
  Modelled from the spec: the struct \<^verbatim>\<open>ForeignKey\<close>, whose declaration is not in
  the source file: the owning column, the referenced table and column, and the two
  optional rules. The fields have the names under which \<^verbatim>\<open>setFK\<close> writes them.
\<close>

record ForeignKey =
  Col :: addr
  RefTableName :: string
  RefColName :: string
  UpdateRule :: string
  DeleteRule :: string

text \<open>
  The struct \<^verbatim>\<open>Model\<close>, with the name of the table as \<open>MName\<close> and, as
  \<open>cells\<close>, the Columns that the Model has created, by address.
\<close>

record Model =
  MName :: string
  Cols :: "string \<rightharpoonup> addr"
  KeyIndexes :: "string \<rightharpoonup> addr list"
  UniqueIndexes :: "string \<rightharpoonup> addr list"
  FK :: "string \<rightharpoonup> ForeignKey"
  PK :: "addr list"
  AI :: "addr option"
  OCC :: "addr option"
  Check :: "string \<rightharpoonup> string"
  Meta :: "string \<rightharpoonup> string list"
  constraints :: "string \<rightharpoonup> conType"
  cells :: "Column list"

text \<open>Reading and writing through a Column pointer.\<close>

definition deref :: "Model \<Rightarrow> addr \<Rightarrow> Column" where
  "deref m a = cells m ! a"

definition store :: "Model \<Rightarrow> addr \<Rightarrow> Column \<Rightarrow> Model" where
  "store m a c = m\<lparr>cells := (cells m)[a := c]\<rparr>"

section \<open>The MySQL dialect: type mapping\<close>

text \<open>
  Modelled from the spec: \<^verbatim>\<open>SQLBuilder.WriteString\<close>, whose source is not in the
  file. The DDL text builder is an append-only text accumulator; the buffer is the text
  written so far.
\<close>

definition WriteString :: "string \<Rightarrow> string \<Rightarrow> string" where
  "WriteString s w = w @ s"

text \<open>
  Modelled from the spec: \<^verbatim>\<open>SQLBuilder.WriteByte\<close>, whose source is not in the
  file: it appends one byte.
\<close>

definition WriteByte :: "char \<Rightarrow> string \<Rightarrow> string" where
  "WriteByte c w = w @ [c]"

text \<open>
  Modelled from the spec: \<^verbatim>\<open>SQLBuilder.TruncateLast\<close>, whose source is not in the
  file: the helper that truncates trailing separators, dropping the last \<open>n\<close> bytes.
\<close>

definition TruncateLast :: "nat \<Rightarrow> string \<Rightarrow> string" where
  "TruncateLast n w = take (length w - n) w"

text \<open>
  The closure \<^verbatim>\<open>addIntLen\<close> of \<^verbatim>\<open>sqlType\<close>, and the two blocks that
  \<^verbatim>\<open>sqlType\<close> repeats for the floating-point and for the textual types.
\<close>

definition addIntLen :: "Column \<Rightarrow> string \<Rightarrow> string" where
  "addIntLen col buf =
     (if Len1 col > 0
      then WriteByte CHR '')'' (WriteString (Itoa (Len1 col)) (WriteByte CHR ''('' buf))
      else buf)"

definition writeDouble :: "Column \<Rightarrow> string \<Rightarrow> error + string" where
  "writeDouble col buf =
     (if Len1 col = 0 \<or> Len2 col = 0 then Inl LengthRequired
      else Inr (WriteString
             (''DOUBLE('' @ Itoa (Len1 col) @ '','' @ Itoa (Len2 col) @ '')'') buf))"

definition writeText :: "Column \<Rightarrow> string \<Rightarrow> string" where
  "writeText col buf =
     (if Len1 col = - 1 \<or> Len1 col > 65533 then WriteString ''LONGTEXT'' buf
      else WriteString (''VARCHAR('' @ Itoa (Len1 col) @ '')'') buf)"

text \<open>
  \<^verbatim>\<open>sqlType\<close>: the column is given as the pointer's target, \<open>None\<close> for nil. The
  result is the buffer after the writes. The inner switch over the struct types has
  no default branch: a struct type that is none of the five writes nothing and the
  function returns nil.
\<close>

definition sqlType :: "string \<Rightarrow> Column option \<Rightarrow> error + string" where
  "sqlType buf colp =
     (case colp of
        None \<Rightarrow> Inl SqlTypeNilCol
      | Some col \<Rightarrow>
        (case GoType col of
           None \<Rightarrow> Inl SqlTypeNilGoType
         | Some t \<Rightarrow>
           (case kindOf t of
              KBool \<Rightarrow> Inr (WriteString ''BOOLEAN'' buf)
            | KInt8 \<Rightarrow> Inr (addIntLen col (WriteString ''SMALLINT'' buf))
            | KInt16 \<Rightarrow> Inr (addIntLen col (WriteString ''MEDIUMINT'' buf))
            | KInt32 \<Rightarrow> Inr (addIntLen col (WriteString ''INT'' buf))
            | KInt64 \<Rightarrow> Inr (addIntLen col (WriteString ''BIGINT'' buf))
            | KInt \<Rightarrow> Inr (addIntLen col (WriteString ''BIGINT'' buf))
            | KUint8 \<Rightarrow>
                Inr (WriteString '' UNSIGNED'' (addIntLen col (WriteString ''SMALLINT'' buf)))
            | KUint16 \<Rightarrow>
                Inr (WriteString '' UNSIGNED'' (addIntLen col (WriteString ''MEDIUMINT'' buf)))
            | KUint32 \<Rightarrow>
                Inr (WriteString '' UNSIGNED'' (addIntLen col (WriteString ''INT'' buf)))
            | KUint64 \<Rightarrow>
                Inr (WriteString '' UNSIGNED'' (addIntLen col (WriteString ''BIGINT'' buf)))
            | KUint \<Rightarrow>
                Inr (WriteString '' UNSIGNED'' (addIntLen col (WriteString ''BIGINT'' buf)))
            | KUintptr \<Rightarrow>
                Inr (WriteString '' UNSIGNED'' (addIntLen col (WriteString ''BIGINT'' buf)))
            | KFloat32 \<Rightarrow> writeDouble col buf
            | KFloat64 \<Rightarrow> writeDouble col buf
            | KString \<Rightarrow> Inr (writeText col buf)
            | KSlice \<Rightarrow>
                (case t of
                   SliceT e \<Rightarrow>
                     (if kindOf e \<noteq> KUint8 \<and> kindOf e \<noteq> KInt32
                      then Inl (UnsupportedElem (kindOf e))
                      else Inr (writeText col buf))
                 | _ \<Rightarrow> Inl Panic)
            | KArray \<Rightarrow>
                (case t of
                   ArrayT e \<Rightarrow>
                     (if kindOf e \<noteq> KUint8 \<and> kindOf e \<noteq> KInt32
                      then Inl (UnsupportedElem (kindOf e))
                      else Inr (writeText col buf))
                 | _ \<Rightarrow> Inl Panic)
            | KStruct \<Rightarrow>
                (if t = nullBool then Inr (WriteString ''BOOLEAN'' buf)
                 else if t = nullFloat64 then writeDouble col buf
                 else if t = nullInt64 then Inr (addIntLen col (WriteString ''BIGINT'' buf))
                 else if t = nullString then Inr (writeText col buf)
                 else if t = timeType then Inr (WriteString ''DATETIME'' buf)
                 else Inr buf)
            | _ \<Rightarrow> Inl (UnsupportedType (typeName t)))))"

section \<open>The schema model builder\<close>

text \<open>
  \<^verbatim>\<open>tags.Parse\<close> is not in the source file. The builder ranges over its result
  with a string key and a string-slice value, so the result is a Go map, and Go does
  not fix the order in which a range loop visits the entries of a map: the order can
  differ between two executions of the same loop, also on the same tag text. What the
  builder depends on is the sequence of entries that the loop visits, so the tokenizer
  together with that order is a parameter of the builder. It is asked once for each
  execution of a range loop, that is, for the tag of each column that
  \<^verbatim>\<open>parseColumn\<close> creates (the site \<open>ColumnTag col\<close>) and for the meta text
  (the site \<open>MetaTag\<close>), and answers with the entries in the order of that visit. Two
  calls of \<^verbatim>\<open>New\<close> may be given different parameters.
\<close>

datatype rangeSite = ColumnTag addr | MetaTag

type_synonym tagsParse = "rangeSite \<Rightarrow> string \<Rightarrow> (string \<times> string list) list"

text \<open>
  Modelled from the spec: \<^verbatim>\<open>Column.IsAI\<close>, whose source is not in the file. A
  column is auto-increment iff it equals the AI reference of its Model.
\<close>

definition IsAI :: "Model \<Rightarrow> addr \<Rightarrow> bool" where
  "IsAI m c = (AI m = Some c)"

text \<open>
  Modelled from the spec: \<^verbatim>\<open>Model.newColumn\<close>, whose source is not in the file.
  It constructs a provisional Column from the field's host type and name. The new
  column gets the next free address of the store.
\<close>

definition newColumn :: "Model \<Rightarrow> StructField \<Rightarrow> addr \<times> Model" where
  "newColumn m field =
     (length (cells m),
      m\<lparr>cells := cells m @
         [\<lparr>Name = FName field, Len1 = 0, Len2 = 0, Nullable = False,
           GoType = Some (FType field), HasDefault = False, Default = []\<rparr>]\<rparr>)"

text \<open>
  Modelled from the spec: \<^verbatim>\<open>Column.setNullable\<close>, whose source is not in the
  file. The clause takes no argument or one boolean literal and sets nullability.
\<close>

definition setNullable :: "Model \<Rightarrow> addr \<Rightarrow> string list \<Rightarrow> error option \<times> Model" where
  "setNullable m c vals =
     (case vals of
        [] \<Rightarrow> (None, store m c ((deref m c)\<lparr>Nullable := True\<rparr>))
      | [v] \<Rightarrow>
          (case ParseBool v of
             Inl e \<Rightarrow> (Some e, m)
           | Inr b \<Rightarrow> (None, store m c ((deref m c)\<lparr>Nullable := b\<rparr>)))
      | _ \<Rightarrow> (Some (NullableArity (Name (deref m c)) vals), m))"

text \<open>
  Modelled from the spec: \<^verbatim>\<open>Column.setLen\<close>, whose source is not in the file. The
  clause takes one or two integers and sets \<open>Len1\<close> and \<open>Len2\<close>.
\<close>

definition setLen :: "Model \<Rightarrow> addr \<Rightarrow> string list \<Rightarrow> error option \<times> Model" where
  "setLen m c vals =
     (case vals of
        [v1] \<Rightarrow>
          (case Atoi v1 of
             Inl e \<Rightarrow> (Some e, m)
           | Inr l1 \<Rightarrow> (None, store m c ((deref m c)\<lparr>Len1 := l1\<rparr>)))
      | [v1, v2] \<Rightarrow>
          (case Atoi v1 of
             Inl e \<Rightarrow> (Some e, m)
           | Inr l1 \<Rightarrow>
               (case Atoi v2 of
                  Inl e \<Rightarrow> (Some e, store m c ((deref m c)\<lparr>Len1 := l1\<rparr>))
                | Inr l2 \<Rightarrow> (None, store m c ((deref m c)\<lparr>Len1 := l1, Len2 := l2\<rparr>))))
      | _ \<Rightarrow> (Some (LenArity (Name (deref m c)) vals), m))"

text \<open>
  The integer kinds that \<^verbatim>\<open>setOCC\<close> and \<^verbatim>\<open>setAI\<close> accept (the two switches
  list the same ten kinds).
\<close>

definition isIntKind :: "Kind \<Rightarrow> bool" where
  "isIntKind k =
     (k \<in> set [KInt, KInt8, KInt16, KInt32, KInt64,
                KUint, KUint8, KUint16, KUint32, KUint64])"

text \<open>
  \<^verbatim>\<open>hasConstraint\<close> looks the name up in lower case. The handlers below store a
  name in the registry as it was written.
\<close>

definition hasConstraint :: "Model \<Rightarrow> string \<Rightarrow> conType \<Rightarrow> conType" where
  "hasConstraint m name except =
     (case constraints m (ToLower name) of
        None \<Rightarrow> none
      | Some typ \<Rightarrow> (if typ \<noteq> except then typ else none))"

definition setOCC :: "Model \<Rightarrow> addr \<Rightarrow> string list \<Rightarrow> error option \<times> Model" where
  "setOCC m c vals =
     (if IsAI m c \<or> Nullable (deref m c) then (Some OCCOnAIOrNullable, m)
      else if OCC m \<noteq> None then (Some OCCExists, m)
      else case GoType (deref m c) of
             None \<Rightarrow> (Some Panic, m)
           | Some t \<Rightarrow>
               (if \<not> isIntKind (kindOf t) then (Some OCCNotInt, m)
                else case vals of
                       [] \<Rightarrow> (None, m\<lparr>OCC := Some c\<rparr>)
                     | [v] \<Rightarrow>
                         (case ParseBool v of
                            Inl e \<Rightarrow> (Some e, m)
                          | Inr val \<Rightarrow> (None, if val then m\<lparr>OCC := Some c\<rparr> else m))
                     | _ \<Rightarrow> (Some (OCCArity (Name (deref m c)) vals), m)))"

definition setDefault :: "Model \<Rightarrow> addr \<Rightarrow> string list \<Rightarrow> error option \<times> Model" where
  "setDefault m col vals =
     (if AI m = Some col then (Some DefaultOnAI, m)
      else if col \<in> set (PK m) then (Some DefaultOnPK, m)
      else case vals of
             [v] \<Rightarrow> (None, store m col ((deref m col)\<lparr>HasDefault := True, Default := v\<rparr>))
           | _ \<Rightarrow> (Some (DefaultArity (Name (deref m col)) vals), m))"

definition setIndex :: "Model \<Rightarrow> addr \<Rightarrow> string list \<Rightarrow> error option \<times> Model" where
  "setIndex m col vals =
     (case vals of
        [v] \<Rightarrow>
          (let typ = hasConstraint m v index
           in if typ \<noteq> none then (Some (ConstraintExists v typ), m)
              else (None,
                    m\<lparr>constraints := (constraints m)(v \<mapsto> index),
                      KeyIndexes := (KeyIndexes m)
                        (v \<mapsto> (case KeyIndexes m v of None \<Rightarrow> [] | Some cs \<Rightarrow> cs) @ [col])\<rparr>))
      | _ \<Rightarrow> (Some (IndexArity (Name (deref m col)) vals), m))"

definition setPK :: "Model \<Rightarrow> addr \<Rightarrow> string list \<Rightarrow> error option \<times> Model" where
  "setPK m col vals =
     (if HasDefault (deref m col) then (Some (PKHasDefault (Name (deref m col))), m)
      else if length vals \<noteq> 0 then (Some (PKArity (Name (deref m col)) vals), m)
      else if AI m \<noteq> None then (Some PKAfterAI, m)
      else (None, m\<lparr>PK := PK m @ [col]\<rparr>))"

definition setUnique :: "Model \<Rightarrow> addr \<Rightarrow> string list \<Rightarrow> error option \<times> Model" where
  "setUnique m col vals =
     (case vals of
        [v] \<Rightarrow>
          (let typ = hasConstraint m v unique
           in if typ \<noteq> none then (Some (ConstraintExists v typ), m)
              else (None,
                    m\<lparr>constraints := (constraints m)(v \<mapsto> unique),
                      UniqueIndexes := (UniqueIndexes m)
                        (v \<mapsto> (case UniqueIndexes m v of None \<Rightarrow> [] | Some cs \<Rightarrow> cs) @ [col])\<rparr>))
      | _ \<Rightarrow> (Some (UniqueArity (Name (deref m col)) vals), m))"

definition setFK :: "Model \<Rightarrow> addr \<Rightarrow> string list \<Rightarrow> error option \<times> Model" where
  "setFK m col vals =
     (if length vals < 3 then (Some FKArity, m)
      else let typ = hasConstraint m (vals ! 0) fk
           in if typ \<noteq> none then (Some (ConstraintExists (vals ! 0) typ), m)
              else if FK m (vals ! 0) \<noteq> None then (Some (FKExists (vals ! 0)), m)
              else let fkInst = \<lparr>Col = col, RefTableName = vals ! 1, RefColName = vals ! 2,
                                 UpdateRule = (if length vals > 3 then vals ! 3 else []),
                                 DeleteRule = (if length vals > 4 then vals ! 4 else [])\<rparr>
                   in (None,
                       m\<lparr>constraints := (constraints m)(vals ! 0 \<mapsto> fk),
                         FK := (FK m)(vals ! 0 \<mapsto> fkInst)\<rparr>))"

definition setAI :: "Model \<Rightarrow> addr \<Rightarrow> string list \<Rightarrow> error option \<times> Model" where
  "setAI m col vals =
     (if HasDefault (deref m col) then (Some (AIHasDefault (Name (deref m col))), m)
      else if length vals \<noteq> 0 then (Some (AIArity (Name (deref m col)) vals), m)
      else if Nullable (deref m col) then (Some (AINullable (Name (deref m col))), m)
      else case GoType (deref m col) of
             None \<Rightarrow> (Some Panic, m)
           | Some t \<Rightarrow>
               (if \<not> isIntKind (kindOf t) then (Some AINotInt, m)
                else (None, m\<lparr>AI := Some col, PK := [col]\<rparr>)))"

text \<open>The switch of \<^verbatim>\<open>parseColumn\<close> for one entry of the parsed tag.\<close>

definition applyTag :: "Model \<Rightarrow> addr \<Rightarrow> string \<Rightarrow> string list \<Rightarrow> error option \<times> Model" where
  "applyTag m col k v =
     (if k = ''name'' then
        (case v of
           [n] \<Rightarrow> (None, store m col ((deref m col)\<lparr>Name := n\<rparr>))
         | _ \<Rightarrow> (Some (NameArity v), m))
      else if k = ''index'' then setIndex m col v
      else if k = ''pk'' then setPK m col v
      else if k = ''unique'' then setUnique m col v
      else if k = ''nullable'' then setNullable m col v
      else if k = ''ai'' then setAI m col v
      else if k = ''len'' then setLen m col v
      else if k = ''fk'' then setFK m col v
      else if k = ''default'' then setDefault m col v
      else if k = ''occ'' then setOCC m col v
      else (Some (UnknownTag k), m))"

text \<open>The range loop of \<^verbatim>\<open>parseColumn\<close>: it stops at the first error.\<close>

fun applyTags :: "Model \<Rightarrow> addr \<Rightarrow> (string \<times> string list) list \<Rightarrow> error option \<times> Model" where
  "applyTags m col [] = (None, m)"
| "applyTags m col ((k, v) # rest) =
     (case applyTag m col k v of
        (Some e, m') \<Rightarrow> (Some e, m')
      | (None, m') \<Rightarrow> applyTags m' col rest)"

definition parseColumn :: "tagsParse \<Rightarrow> Model \<Rightarrow> StructField \<Rightarrow> error option \<times> Model" where
  "parseColumn parse m field =
     (case FName field of
        [] \<Rightarrow> (Some Panic, m)
      | c0 # _ \<Rightarrow>
          (if IsLower c0 then (None, m)
           else if Tag field = ''-'' then (None, m)
           else case newColumn m field of
                  (col, m1) \<Rightarrow>
                    (if length (Tag field) = 0
                     then (None, m1\<lparr>Cols := (Cols m1)(Name (deref m1 col) \<mapsto> col)\<rparr>)
                     else case applyTags m1 col (parse (ColumnTag col) (Tag field)) of
                            (Some e, m2) \<Rightarrow> (Some e, m2)
                          | (None, m2) \<Rightarrow>
                              (None, m2\<lparr>Cols := (Cols m2)(Name (deref m2 col) \<mapsto> col)\<rparr>))))"

text \<open>
  \<^verbatim>\<open>parseColumns\<close> over the fields of a struct type. For an embedded field the
  function calls itself on the field and goes on with the next field: the error it
  returns is dropped, the writes it made to the Model stay. \<^verbatim>\<open>NumField\<close> panics on
  an embedded field that is not a struct, and a panic is not dropped.
\<close>

function parseColumns :: "tagsParse \<Rightarrow> StructField list \<Rightarrow> Model \<Rightarrow> error option \<times> Model" where
  "parseColumns parse [] m = (None, m)"
| "parseColumns parse (field # rest) m =
     (if Anonymous field then
        (case FType field of
           StructT n fs \<Rightarrow>
             (case parseColumns parse fs m of
                (Some Panic, m1) \<Rightarrow> (Some Panic, m1)
              | (_, m1) \<Rightarrow> parseColumns parse rest m1)
         | _ \<Rightarrow> (Some Panic, m))
      else
        (case parseColumn parse m field of
           (Some e, m1) \<Rightarrow> (Some e, m1)
         | (None, m1) \<Rightarrow> parseColumns parse rest m1))"
  by pat_completeness auto
termination
proof (relation "measure (\<lambda>(parse, fields, m). size_list size fields)")
  show "wf (measure (\<lambda>(parse, fields, m). size_list size fields))"
    by simp
next
  fix parse :: tagsParse and field :: StructField and rest and m :: Model and n fs
  assume "FType field = StructT n fs"
  then have "size_list size fs < size field"
    by (cases field) simp
  then show "((parse, fs, m), (parse, field # rest, m))
      \<in> measure (\<lambda>(parse, fields, m). size_list size fields)"
    by simp
qed simp_all

text \<open>The switch of \<^verbatim>\<open>parseMeta\<close> for one entry of the parsed meta text.\<close>

definition metaTag :: "Model \<Rightarrow> string \<Rightarrow> string list \<Rightarrow> error option \<times> Model" where
  "metaTag m k v =
     (if k = ''name'' then
        (if length v \<noteq> 1 then (Some (MetaNameArity v), m)
         else (None, m\<lparr>MName := v ! 0\<rparr>))
      else if k = ''check'' then
        (if length v \<noteq> 2 then (Some (MetaCheckArity v), m)
         else if Check m (v ! 0) \<noteq> None then (Some (CheckExists (v ! 0)), m)
         else let typ = hasConstraint m (v ! 0) check
              in if typ \<noteq> none then (Some (ConstraintExists (v ! 0) typ), m)
                 else (None,
                       m\<lparr>constraints := (constraints m)(v ! 0 \<mapsto> check),
                         Check := (Check m)(v ! 0 \<mapsto> v ! 1)\<rparr>))
      else (None, m\<lparr>Meta := (Meta m)(k \<mapsto> v)\<rparr>))"

fun metaTags :: "Model \<Rightarrow> (string \<times> string list) list \<Rightarrow> error option \<times> Model" where
  "metaTags m [] = (None, m)"
| "metaTags m ((k, v) # rest) =
     (case metaTag m k v of
        (Some e, m') \<Rightarrow> (Some e, m')
      | (None, m') \<Rightarrow> metaTags m' rest)"

text \<open>
  \<^verbatim>\<open>parseMeta\<close>: the last argument is \<open>Some txt\<close> when the value implements
  \<^verbatim>\<open>Metaer\<close> and its \<^verbatim>\<open>Meta()\<close> returns \<open>txt\<close>, and \<open>None\<close> when it does not.
\<close>

definition parseMeta :: "tagsParse \<Rightarrow> Model \<Rightarrow> string option \<Rightarrow> error option \<times> Model" where
  "parseMeta parse m meta =
     (case meta of
        None \<Rightarrow> (None, m)
      | Some txt \<Rightarrow>
          (if length (parse MetaTag txt) = 0 then (None, m)
           else metaTags m (parse MetaTag txt)))"

subsection \<open>The cache and \<^verbatim>\<open>New\<close>\<close>

text \<open>
  A pointer to a Model is an address in \<open>heap\<close>; \<open>items\<close> is the cache
  \<^verbatim>\<open>models.items\<close>. The lock is held for the whole of \<^verbatim>\<open>New\<close> and of
  \<^verbatim>\<open>Clear\<close>, so each of them is one step on the world.

  The argument of \<^verbatim>\<open>New\<close> is given by its dynamic type, by whether a pointer on the
  way to the struct is nil, and by the text of \<^verbatim>\<open>Meta()\<close> when the value
  implements \<^verbatim>\<open>Metaer\<close>.
\<close>

record World =
  heap :: "Model list"
  items :: "GoType \<rightharpoonup> addr"

record Obj =
  dynType :: GoType
  nilPtr :: bool
  metaText :: "string option"

fun indirect :: "GoType \<Rightarrow> GoType" where
  "indirect (PtrT t) = indirect t"
| "indirect t = t"

definition emptyModel :: "string \<Rightarrow> Model" where
  "emptyModel name =
     \<lparr>MName = name, Cols = Map.empty, KeyIndexes = Map.empty, UniqueIndexes = Map.empty,
      FK = Map.empty, PK = [], AI = None, OCC = None, Check = Map.empty, Meta = Map.empty,
      constraints = Map.empty, cells = []\<rparr>"

text \<open>
  \<^verbatim>\<open>New\<close>. A Model that fails to build is not in the cache and nobody holds a
  pointer to it, so the world is returned as it was.
\<close>

definition New :: "tagsParse \<Rightarrow> Obj \<Rightarrow> World \<Rightarrow> (error + addr) \<times> World" where
  "New parse obj w =
     (if kindOf (dynType obj) = KPtr \<and> nilPtr obj then (Inl Panic, w)
      else case indirect (dynType obj) of
             StructT name fs \<Rightarrow>
               (case items w (StructT name fs) of
                  Some m \<Rightarrow> (Inr m, w)
                | None \<Rightarrow>
                    (case parseColumns parse fs (emptyModel name) of
                       (Some e, m1) \<Rightarrow> (Inl e, w)
                     | (None, m1) \<Rightarrow>
                         (case parseMeta parse m1 (metaText obj) of
                            (Some e, m2) \<Rightarrow> (Inl e, w)
                          | (None, m2) \<Rightarrow>
                              (Inr (length (heap w)),
                               w\<lparr>heap := heap w @ [m2],
                                 items := (items w)(StructT name fs \<mapsto> length (heap w))\<rparr>))))
           | _ \<Rightarrow> (Inl ErrInvalidKind, w))"


section \<open>The MySQL dialect: CREATE TABLE\<close>

text \<open>
  The loops of the dialect range over Go maps, and Go does not fix the order in which
  a range loop visits the keys of a map. The order is a parameter: for each map that is
  ranged over, the list of its keys in the order of the visit.
\<close>

record Enum =
  colOrder :: "string list"
  checkOrder :: "string list"
  fkOrder :: "string list"
  indexOrder :: "string list"

definition validEnum :: "Enum \<Rightarrow> Model \<Rightarrow> bool" where
  "validEnum e m =
     (distinct (colOrder e) \<and> set (colOrder e) = dom (Cols m) \<and>
      distinct (checkOrder e) \<and> set (checkOrder e) = dom (Check m) \<and>
      distinct (fkOrder e) \<and> set (fkOrder e) = dom (FK m) \<and>
      distinct (indexOrder e) \<and> set (indexOrder e) = dom (KeyIndexes m))"

text \<open>
  Modelled from the spec: \<^verbatim>\<open>createColSQL\<close>, whose source is not in the file. It
  renders a column with its type: the name in the \<^verbatim>\<open>{name}\<close> form that
  \<^verbatim>\<open>createIndexSQL\<close> uses, the type from \<^verbatim>\<open>sqlType\<close>, and the markers for
  the column's nullability and default value.
\<close>

definition createColSQL :: "string \<Rightarrow> Model \<Rightarrow> addr \<Rightarrow> error + string" where
  "createColSQL w model col =
     (let c = deref model col;
          w1 = WriteByte CHR '' ''
                 (WriteByte CHR ''}'' (WriteString (Name c) (WriteByte CHR ''{'' w)))
      in case sqlType w1 (Some c) of
           Inl e \<Rightarrow> Inl e
         | Inr w2 \<Rightarrow>
             (let w3 = (if \<not> Nullable c then WriteString '' NOT NULL'' w2 else w2);
                  w4 = (if HasDefault c
                        then WriteByte (CHR 0x27)
                               (WriteString (Default c)
                                  (WriteByte (CHR 0x27) (WriteString '' DEFAULT '' w3)))
                        else w3)
              in Inr w4))"

text \<open>The loop of \<^verbatim>\<open>CreateTableSQL\<close> over \<^verbatim>\<open>model.Cols\<close>.\<close>

fun colsLoop :: "Model \<Rightarrow> string list \<Rightarrow> string \<Rightarrow> error + string" where
  "colsLoop model [] w = Inr w"
| "colsLoop model (k # ks) w =
     (case Cols model k of
        None \<Rightarrow> colsLoop model ks w
      | Some col \<Rightarrow>
          (if IsAI model col then colsLoop model ks w
           else case createColSQL w model col of
                  Inl e \<Rightarrow> Inl e
                | Inr w1 \<Rightarrow> colsLoop model ks (WriteByte CHR '','' w1)))"

text \<open>The inner loop shared by the key lists: \<^verbatim>\<open>{name},\<close> for each column.\<close>

fun colNames :: "Model \<Rightarrow> addr list \<Rightarrow> string \<Rightarrow> string" where
  "colNames model [] w = w"
| "colNames model (col # cols) w =
     colNames model cols
       (WriteByte CHR '',''
          (WriteByte CHR ''}'' (WriteString (Name (deref model col)) (WriteByte CHR ''{'' w))))"

text \<open>
  Modelled from the spec: the constant \<^verbatim>\<open>pkName\<close>, whose declaration is not in the
  source file: the name of the primary-key constraint.
\<close>

definition pkName :: string where
  "pkName = ''pk''"

text \<open>
  Modelled from the spec: \<^verbatim>\<open>createPKSQL\<close>, whose source is not in the file: the
  primary-key constraint clause over the key columns.
\<close>

definition createPKSQL :: "string \<Rightarrow> Model \<Rightarrow> addr list \<Rightarrow> string \<Rightarrow> string" where
  "createPKSQL w model cols name =
     WriteByte CHR '')''
       (TruncateLast 1
          (colNames model cols
             (WriteString '' PRIMARY KEY(''
                (WriteString name (WriteString '' CONSTRAINT '' w)))))"

text \<open>
  Modelled from the spec: the loop of \<^verbatim>\<open>createConstraints\<close> over the check
  constraints; the source is not in the file. Each constraint is followed by a comma.
\<close>

fun checksLoop :: "Model \<Rightarrow> string list \<Rightarrow> string \<Rightarrow> string" where
  "checksLoop model [] w = w"
| "checksLoop model (k # ks) w =
     (case Check model k of
        None \<Rightarrow> checksLoop model ks w
      | Some expr \<Rightarrow>
          checksLoop model ks
            (WriteString ''),''
               (WriteString expr
                  (WriteString '' CHECK('' (WriteString k (WriteString '' CONSTRAINT '' w))))))"

text \<open>
  Modelled from the spec: the loop of \<^verbatim>\<open>createConstraints\<close> over the foreign
  keys; the source is not in the file. Each constraint is followed by a comma.
\<close>

fun fksLoop :: "Model \<Rightarrow> string list \<Rightarrow> string \<Rightarrow> string" where
  "fksLoop model [] w = w"
| "fksLoop model (k # ks) w =
     (case FK model k of
        None \<Rightarrow> fksLoop model ks w
      | Some f \<Rightarrow>
          (let w1 = WriteString '' CONSTRAINT '' w;
               w2 = WriteString k w1;
               w3 = WriteString '' FOREIGN KEY({'' w2;
               w4 = WriteString (Name (deref model (Col f))) w3;
               w5 = WriteString ''}) REFERENCES {#'' w4;
               w6 = WriteString (RefTableName f) w5;
               w7 = WriteString ''}({'' w6;
               w8 = WriteString (RefColName f) w7;
               w9 = WriteString ''})'' w8;
               w10 = (if length (UpdateRule f) > 0
                      then WriteString (UpdateRule f) (WriteString '' ON UPDATE '' w9)
                      else w9);
               w11 = (if length (DeleteRule f) > 0
                      then WriteString (DeleteRule f) (WriteString '' ON DELETE '' w10)
                      else w10)
           in fksLoop model ks (WriteByte CHR '','' w11)))"

text \<open>
  Modelled from the spec: \<^verbatim>\<open>createConstraints\<close>, whose source is not in the file:
  the check constraints and then the foreign-key constraints.
\<close>

definition createConstraints :: "Enum \<Rightarrow> string \<Rightarrow> Model \<Rightarrow> string" where
  "createConstraints e w model =
     fksLoop model (fkOrder e) (checksLoop model (checkOrder e) w)"

text \<open>\<^verbatim>\<open>createIndexSQL\<close>: one \<^verbatim>\<open>INDEX name(cols),\<close> for each key index.\<close>

fun createIndexSQL :: "Model \<Rightarrow> string list \<Rightarrow> string \<Rightarrow> string" where
  "createIndexSQL model [] w = w"
| "createIndexSQL model (indexName # ks) w =
     (case KeyIndexes model indexName of
        None \<Rightarrow> createIndexSQL model ks w
      | Some cols \<Rightarrow>
          createIndexSQL model ks
            (WriteString ''),''
               (TruncateLast 1
                  (colNames model cols
                     (WriteByte CHR ''('' (WriteString indexName (WriteString '' INDEX '' w)))))))"

text \<open>\<^verbatim>\<open>len(model.Meta[key])\<close>: the length of a missing entry is 0.\<close>

definition metaLen :: "Model \<Rightarrow> string \<Rightarrow> nat" where
  "metaLen model key = (case Meta model key of None \<Rightarrow> 0 | Some vs \<Rightarrow> length vs)"

definition metaFirst :: "Model \<Rightarrow> string \<Rightarrow> string" where
  "metaFirst model key = (case Meta model key of None \<Rightarrow> [] | Some vs \<Rightarrow> vs ! 0)"

definition createTableOptions :: "string \<Rightarrow> Model \<Rightarrow> error + string" where
  "createTableOptions w model =
     (if metaLen model ''engine'' \<noteq> 1 \<and> metaLen model ''engine'' > 0 then Inl InvalidEngine
      else let w1 = (if metaLen model ''engine'' = 1
                     then WriteByte CHR '' ''
                            (WriteString (metaFirst model ''engine'') (WriteString '' ENGINE='' w))
                     else w)
           in if metaLen model ''charset'' \<noteq> 1 \<and> metaLen model ''charset'' > 0
              then Inl InvalidCharset
              else Inr (if metaLen model ''charset'' = 1
                        then WriteByte CHR '' ''
                               (WriteString (metaFirst model ''charset'')
                                  (WriteString '' CHARACTER SET='' w1))
                        else w1))"

definition CreateTableSQL :: "Enum \<Rightarrow> Model \<Rightarrow> error + string list" where
  "CreateTableSQL e model =
     (let w = WriteString ''}(''
                (WriteString (MName model)
                   (WriteString ''{#'' ''CREATE TABLE IF NOT EXISTS ''))
      in case (case AI model of
                 None \<Rightarrow> Inr w
               | Some ai \<Rightarrow>
                   (case createColSQL w model ai of
                      Inl err \<Rightarrow> Inl err
                    | Inr w1 \<Rightarrow> Inr (WriteString '' PRIMARY KEY AUTO_INCREMENT,'' w1))) of
           Inl err \<Rightarrow> Inl err
         | Inr w2 \<Rightarrow>
             (case colsLoop model (colOrder e) w2 of
                Inl err \<Rightarrow> Inl err
              | Inr w3 \<Rightarrow>
                  (let w4 = (if length (PK model) > 0 \<and> \<not> IsAI model (PK model ! 0)
                             then WriteByte CHR '','' (createPKSQL w3 model (PK model) pkName)
                             else w3);
                       w5 = createConstraints e w4 model;
                       w6 = createIndexSQL model (indexOrder e) w5;
                       w7 = WriteByte CHR '')'' (TruncateLast 1 w6)
                   in case createTableOptions w7 model of
                        Inl err \<Rightarrow> Inl err
                      | Inr w8 \<Rightarrow> Inr [w8])))"

section \<open>A tokenizer for the examples\<close>

text \<open>
  Modelled from the spec: the splitting of a text at a separator that the tokenizer
  \<^verbatim>\<open>tags.Parse\<close> needs; its source is not in the file.
\<close>

fun splitOn :: "char \<Rightarrow> string \<Rightarrow> string list" where
  "splitOn sep [] = [[]]"
| "splitOn sep (c # cs) =
     (if c = sep then [] # splitOn sep cs
      else case splitOn sep cs of
             [] \<Rightarrow> [[c]]
           | p # ps \<Rightarrow> (c # p) # ps)"

text \<open>
  Modelled from the spec: one clause of the syntax \<^verbatim>\<open>key(arg1,arg2)\<close> or
  \<^verbatim>\<open>key\<close>, as \<^verbatim>\<open>tags.Parse\<close> splits it; its source is not in the file.
\<close>

definition parseClause :: "string \<Rightarrow> string \<times> string list" where
  "parseClause s =
     (let key = takeWhile (\<lambda>c. c \<noteq> CHR ''('') s;
          rest = dropWhile (\<lambda>c. c \<noteq> CHR ''('') s
      in (key,
          if rest = [] then []
          else splitOn CHR '','' (takeWhile (\<lambda>c. c \<noteq> CHR '')'') (tl rest))))"

text \<open>
  Modelled from the spec: \<^verbatim>\<open>tags.Parse\<close>, whose source is not in the file, for
  tag texts in the clause syntax \<^verbatim>\<open>key1(arg1,arg2);key2;key3(arg1)\<close>: the entries
  of the tag, listed in the order of the text.
\<close>

definition Parse :: "string \<Rightarrow> (string \<times> string list) list" where
  "Parse tag = map parseClause (filter (\<lambda>s. s \<noteq> []) (splitOn CHR '';'' tag))"

text \<open>
  Modelled from the spec: the visit in which every range loop follows the order of the
  tag text (the spec lets the clauses be applied in the annotation's own key order).
  It serves to run the builder on the examples whose tags have one clause each, where
  there is one order only.
\<close>

definition textOrder :: tagsParse where
  "textOrder site tag = Parse tag"



section \<open>Example record types\<close>

definition emptyWorld :: World where
  "emptyWorld = \<lparr>heap = [], items = Map.empty\<rparr>"

text \<open>A non-nil value of the given type that does not implement \<^verbatim>\<open>Metaer\<close>.\<close>

definition objOf :: "GoType \<Rightarrow> Obj" where
  "objOf t = \<lparr>dynType = t, nilPtr = False, metaText = None\<rparr>"

definition tInt :: GoType where
  "tInt = Prim KInt ''int''"

definition tString :: GoType where
  "tString = Prim KString ''string''"

definition tFloat64 :: GoType where
  "tFloat64 = Prim KFloat64 ''float64''"

definition mkCol :: "GoType \<Rightarrow> int \<Rightarrow> int \<Rightarrow> Column" where
  "mkCol t l1 l2 =
     \<lparr>Name = ''c'', Len1 = l1, Len2 = l2, Nullable = False, GoType = Some t,
      HasDefault = False, Default = []\<rparr>"

text \<open>
  \<^verbatim>\<open>type User struct { ID int `orm:"ai"`; Name string `orm:"len(50)"`;
  Score float64 `orm:"len(5,2)"` }\<close>
\<close>

definition User :: GoType where
  "User = StructT ''User''
     [StructField ''ID'' tInt False ''ai'',
      StructField ''Name'' tString False ''len(50)'',
      StructField ''Score'' tFloat64 False ''len(5,2)'']"



text \<open>
  \<^verbatim>\<open>type Inner struct { X int `orm:"bogus"` }\<close> and
  \<^verbatim>\<open>type Outer struct { Inner; Y int }\<close>
\<close>

definition Inner :: GoType where
  "Inner = StructT ''Inner'' [StructField ''X'' tInt False ''bogus'']"

definition Outer :: GoType where
  "Outer = StructT ''Outer''
     [StructField ''Inner'' Inner True [], StructField ''Y'' tInt False []]"

definition Mixed :: GoType where
  "Mixed = StructT ''Mixed''
     [StructField ''A'' tInt False ''index(Idx)'',
      StructField ''B'' tInt False ''unique(idx)'']"

definition Point :: GoType where
  "Point = StructT ''Point'' [StructField ''X'' tInt False [], StructField ''Y'' tInt False []]"

definition Shape :: GoType where
  "Shape = StructT ''Shape'' [StructField ''P'' Point False []]"

text \<open>\<^verbatim>\<open>type Dup struct { A int; B string `orm:"name(A)"` }\<close>\<close>

definition Dup :: GoType where
  "Dup = StructT ''Dup''
     [StructField ''A'' tInt False [], StructField ''B'' tString False ''name(A)'']"

text \<open>\<^verbatim>\<open>type DupPK struct { A int `orm:"pk"`; B string `orm:"name(A)"` }\<close>\<close>

definition DupPK :: GoType where
  "DupPK = StructT ''DupPK''
     [StructField ''A'' tInt False ''pk'', StructField ''B'' tString False ''name(A)'']"

definition FkTwice :: GoType where
  "FkTwice = StructT ''FkTwice''
     [StructField ''A'' tInt False ''fk(fk1,t,c)'', StructField ''B'' tInt False ''fk(fk1,t,d)'']"

definition Ref :: GoType where
  "Ref = StructT ''Ref''
     [StructField ''A'' tInt False ''fk(fk1,t,c,CASCADE,RESTRICT,extra)'']"

text \<open>A Model with one fresh column of the given type at address 0.\<close>

definition oneCol :: "GoType \<Rightarrow> Model" where
  "oneCol t = snd (newColumn (emptyModel ''T'') (StructField ''Ver'' t False ''occ(false)''))"

text \<open>The Model that \<^verbatim>\<open>New\<close> builds for \<open>User\<close> (lemma \<open>User_build\<close>).\<close>

definition userModel :: Model where
  "userModel =
     \<lparr>MName = ''User'',
      Cols = [''ID'' \<mapsto> 0, ''Name'' \<mapsto> 1, ''Score'' \<mapsto> 2],
      KeyIndexes = Map.empty, UniqueIndexes = Map.empty, FK = Map.empty,
      PK = [0], AI = Some 0, OCC = None, Check = Map.empty, Meta = Map.empty,
      constraints = Map.empty,
      cells =
        [\<lparr>Name = ''ID'', Len1 = 0, Len2 = 0, Nullable = False, GoType = Some tInt,
          HasDefault = False, Default = []\<rparr>,
         \<lparr>Name = ''Name'', Len1 = 50, Len2 = 0, Nullable = False, GoType = Some tString,
          HasDefault = False, Default = []\<rparr>,
         \<lparr>Name = ''Score'', Len1 = 5, Len2 = 2, Nullable = False, GoType = Some tFloat64,
          HasDefault = False, Default = []\<rparr>]\<rparr>"

text \<open>Two orders in which a range loop may visit the three keys of its column mapping.\<close>

definition declaredOrder :: Enum where
  "declaredOrder =
     \<lparr>colOrder = [''ID'', ''Name'', ''Score''], checkOrder = [], fkOrder = [], indexOrder = []\<rparr>"

definition otherOrder :: Enum where
  "otherOrder =
     \<lparr>colOrder = [''Score'', ''ID'', ''Name''], checkOrder = [], fkOrder = [], indexOrder = []\<rparr>"

text \<open>
  The texts occur in the statement one after the other, without overlap:
  \<open>dropPast pat s\<close> is what follows the first occurrence of \<open>pat\<close> in \<open>s\<close>.
\<close>

fun dropPast :: "string \<Rightarrow> string \<Rightarrow> string option" where
  "dropPast pat [] = (if pat = [] then Some [] else None)"
| "dropPast pat (c # cs) =
     (if take (length pat) (c # cs) = pat then Some (drop (length pat) (c # cs))
      else dropPast pat cs)"

fun occursInOrder :: "string list \<Rightarrow> string \<Rightarrow> bool" where
  "occursInOrder [] s = True"
| "occursInOrder (p # ps) s =
     (case dropPast p s of None \<Rightarrow> False | Some rest \<Rightarrow> occursInOrder ps rest)"

section \<open>Facts about the examples and the handlers\<close>

lemma IsLower_upper [simp]:
  "\<not> IsLower CHR ''I''" "\<not> IsLower CHR ''N''" "\<not> IsLower CHR ''S''" "\<not> IsLower CHR ''B''"
  by (simp_all add: IsLower_def)

lemma Atoi_examples: "Atoi ''50'' = Inr 50" "Atoi ''5'' = Inr 5" "Atoi ''2'' = Inr 2"
  by (simp_all add: Atoi_def digitVal_def)

lemma Parse_examples:
  "Parse ''ai'' = [(''ai'', [])]" "Parse ''len(50)'' = [(''len'', [''50''])]"
  "Parse ''len(5,2)'' = [(''len'', [''5'', ''2''])]"
  by code_simp+

lemma oneCol_simps:
  "cells (oneCol t) = [\<lparr>Name = ''Ver'', Len1 = 0, Len2 = 0, Nullable = False,
           GoType = Some t, HasDefault = False, Default = []\<rparr>]"
  "AI (oneCol t) = None" "OCC (oneCol t) = None" "PK (oneCol t) = []"
  "constraints (oneCol t) = Map.empty" "FK (oneCol t) = Map.empty" "Cols (oneCol t) = Map.empty"
  by (simp_all add: oneCol_def newColumn_def emptyModel_def)


lemma User_build:
  assumes "parse (ColumnTag 0) ''ai'' = [(''ai'', [])]"
    "parse (ColumnTag 1) ''len(50)'' = [(''len'', [''50''])]"
    "parse (ColumnTag 2) ''len(5,2)'' = [(''len'', [''5'', ''2''])]"
  shows "parseColumns parse
           [StructField ''ID'' tInt False ''ai'',
            StructField ''Name'' tString False ''len(50)'',
            StructField ''Score'' tFloat64 False ''len(5,2)'']
           (emptyModel ''User'') = (None, userModel)"
  using assms
  by (simp add: parseColumn_def newColumn_def applyTag_def setAI_def setLen_def deref_def
      store_def emptyModel_def userModel_def Atoi_examples isIntKind_def tInt_def numeral_2_eq_2)

lemma User_New:
  assumes "parse (ColumnTag 0) ''ai'' = [(''ai'', [])]"
    "parse (ColumnTag 1) ''len(50)'' = [(''len'', [''50''])]"
    "parse (ColumnTag 2) ''len(5,2)'' = [(''len'', [''5'', ''2''])]" "items w User = None"
  shows "New parse (objOf User) w =
     (Inr (length (heap w)),
      w\<lparr>heap := heap w @ [userModel], items := (items w)(User \<mapsto> length (heap w))\<rparr>)"
  using assms(4) User_build [OF assms(1-3)]
  by (simp add: New_def objOf_def User_def parseMeta_def)

lemma User_heap: "heap (snd (New textOrder (objOf User) emptyWorld)) ! 0 = userModel"
  using User_New [of textOrder emptyWorld]
  by (simp add: Parse_examples textOrder_def emptyWorld_def)

lemma perm3:
  assumes "distinct ks" "set ks = {a, b, c}" "a \<noteq> b" "a \<noteq> c" "b \<noteq> c"
  shows "ks \<in> {[a, b, c], [a, c, b], [b, a, c], [b, c, a], [c, a, b], [c, b, a]}"
proof -
  have "card (set ks) = 3"
    using assms by simp
  then have "length ks = 3"
    using assms(1) distinct_card [of ks] by simp
  then obtain x y z where ks: "ks = [x, y, z]"
    by (auto simp: numeral_3_eq_3 length_Suc_conv)
  have mem: "x \<in> {a, b, c}" "y \<in> {a, b, c}" "z \<in> {a, b, c}"
    using assms(2) ks by auto
  have ne: "x \<noteq> y" "x \<noteq> z" "y \<noteq> z"
    using assms(1) ks by auto
  show ?thesis
    unfolding ks using mem ne by blast
qed

lemma User_sql_orders:
  "CreateTableSQL \<lparr>colOrder = [''ID'', ''Name'', ''Score''], checkOrder = [], fkOrder = [], indexOrder = []\<rparr> userModel =
     Inr [''CREATE TABLE IF NOT EXISTS {#User}({ID} BIGINT NOT NULL PRIMARY KEY AUTO_INCREMENT,{Name} VARCHAR(50) NOT NULL,{Score} DOUBLE(5,2) NOT NULL)'']"
  "CreateTableSQL \<lparr>colOrder = [''Name'', ''ID'', ''Score''], checkOrder = [], fkOrder = [], indexOrder = []\<rparr> userModel =
     Inr [''CREATE TABLE IF NOT EXISTS {#User}({ID} BIGINT NOT NULL PRIMARY KEY AUTO_INCREMENT,{Name} VARCHAR(50) NOT NULL,{Score} DOUBLE(5,2) NOT NULL)'']"
  "CreateTableSQL \<lparr>colOrder = [''Name'', ''Score'', ''ID''], checkOrder = [], fkOrder = [], indexOrder = []\<rparr> userModel =
     Inr [''CREATE TABLE IF NOT EXISTS {#User}({ID} BIGINT NOT NULL PRIMARY KEY AUTO_INCREMENT,{Name} VARCHAR(50) NOT NULL,{Score} DOUBLE(5,2) NOT NULL)'']"
  "CreateTableSQL \<lparr>colOrder = [''ID'', ''Score'', ''Name''], checkOrder = [], fkOrder = [], indexOrder = []\<rparr> userModel =
     Inr [''CREATE TABLE IF NOT EXISTS {#User}({ID} BIGINT NOT NULL PRIMARY KEY AUTO_INCREMENT,{Score} DOUBLE(5,2) NOT NULL,{Name} VARCHAR(50) NOT NULL)'']"
  "CreateTableSQL \<lparr>colOrder = [''Score'', ''ID'', ''Name''], checkOrder = [], fkOrder = [], indexOrder = []\<rparr> userModel =
     Inr [''CREATE TABLE IF NOT EXISTS {#User}({ID} BIGINT NOT NULL PRIMARY KEY AUTO_INCREMENT,{Score} DOUBLE(5,2) NOT NULL,{Name} VARCHAR(50) NOT NULL)'']"
  "CreateTableSQL \<lparr>colOrder = [''Score'', ''Name'', ''ID''], checkOrder = [], fkOrder = [], indexOrder = []\<rparr> userModel =
     Inr [''CREATE TABLE IF NOT EXISTS {#User}({ID} BIGINT NOT NULL PRIMARY KEY AUTO_INCREMENT,{Score} DOUBLE(5,2) NOT NULL,{Name} VARCHAR(50) NOT NULL)'']"
  by code_simp+

lemma userModel_maps:
  "dom (Cols userModel) = {''ID'', ''Name'', ''Score''}"
  "dom (Check userModel) = {}" "dom (FK userModel) = {}" "dom (KeyIndexes userModel) = {}"
  by (simp_all add: userModel_def insert_commute)

lemma userModel_valid:
  "validEnum e userModel \<longleftrightarrow>
     distinct (colOrder e) \<and> set (colOrder e) = {''ID'', ''Name'', ''Score''}
     \<and> checkOrder e = [] \<and> fkOrder e = [] \<and> indexOrder e = []"
  unfolding validEnum_def userModel_maps by (intro iffI; clarsimp)

lemma orders_valid: "validEnum declaredOrder userModel" "validEnum otherOrder userModel"
  by (auto simp: userModel_valid declaredOrder_def otherOrder_def)

section \<open>The type mapping of the dialect\<close>

text \<open>
  C4. On the MySQL dialect a column of kind int8 renders \<^verbatim>\<open>SMALLINT\<close>, followed by
  the display length in parentheses only when \<open>Len1 > 0\<close>; uint32 with \<open>Len1 = 0\<close>
  renders \<^verbatim>\<open>INT UNSIGNED\<close> with no length suffix; string with \<open>Len1 = 100\<close> renders
  \<^verbatim>\<open>VARCHAR(100)\<close>; string with \<open>Len1 = -1\<close> renders \<^verbatim>\<open>LONGTEXT\<close>; float64 with
  \<open>Len1 = 10\<close> and \<open>Len2 = 2\<close> renders \<^verbatim>\<open>DOUBLE(10,2)\<close>. Each text is appended
  to the buffer, and each case holds on its own.
\<close>

theorem sqlType_mapping:
  "(GoType col = Some t \<and> kindOf t = KInt8 \<longrightarrow>
      sqlType buf (Some col) =
        Inr (buf @ ''SMALLINT'' @ (if 0 < Len1 col then ''('' @ Itoa (Len1 col) @ '')'' else [])))
   \<and> (GoType col = Some t \<and> kindOf t = KUint32 \<and> Len1 col = 0 \<longrightarrow>
      sqlType buf (Some col) = Inr (buf @ ''INT UNSIGNED''))
   \<and> (GoType col = Some t \<and> kindOf t = KString \<and> Len1 col = 100 \<longrightarrow>
      sqlType buf (Some col) = Inr (buf @ ''VARCHAR(100)''))
   \<and> (GoType col = Some t \<and> kindOf t = KString \<and> Len1 col = - 1 \<longrightarrow>
      sqlType buf (Some col) = Inr (buf @ ''LONGTEXT''))
   \<and> (GoType col = Some t \<and> kindOf t = KFloat64 \<and> Len1 col = 10 \<and> Len2 col = 2 \<longrightarrow>
      sqlType buf (Some col) = Inr (buf @ ''DOUBLE(10,2)''))"
  by (simp add: sqlType_def addIntLen_def writeText_def writeDouble_def
      WriteString_def WriteByte_def Itoa_def natDigits.simps)

theorem sqlType_mapping_witness:
  "sqlType [] (Some (mkCol (Prim KInt8 ''int8'') 0 0)) = Inr ''SMALLINT''
   \<and> sqlType [] (Some (mkCol (Prim KInt8 ''int8'') 4 0)) = Inr ''SMALLINT(4)''
   \<and> sqlType [] (Some (mkCol (Prim KUint32 ''uint32'') 0 0)) = Inr ''INT UNSIGNED''
   \<and> sqlType [] (Some (mkCol (Prim KString ''string'') 100 0)) = Inr ''VARCHAR(100)''
   \<and> sqlType [] (Some (mkCol (Prim KString ''string'') (- 1) 0)) = Inr ''LONGTEXT''
   \<and> sqlType [] (Some (mkCol (Prim KFloat64 ''float64'') 10 2)) = Inr ''DOUBLE(10,2)''"
  using sqlType_mapping [of "mkCol (Prim KInt8 ''int8'') 0 0" "Prim KInt8 ''int8''" "[]"]
    sqlType_mapping [of "mkCol (Prim KInt8 ''int8'') 4 0" "Prim KInt8 ''int8''" "[]"]
    sqlType_mapping [of "mkCol (Prim KUint32 ''uint32'') 0 0" "Prim KUint32 ''uint32''" "[]"]
    sqlType_mapping [of "mkCol (Prim KString ''string'') 100 0" "Prim KString ''string''" "[]"]
    sqlType_mapping [of "mkCol (Prim KString ''string'') (- 1) 0" "Prim KString ''string''" "[]"]
    sqlType_mapping [of "mkCol (Prim KFloat64 ''float64'') 10 2" "Prim KFloat64 ''float64''" "[]"]
  by (simp add: mkCol_def Itoa_def natDigits.simps)

section \<open>The clauses \<^verbatim>\<open>ai\<close> and \<^verbatim>\<open>pk\<close> on one field\<close>




section \<open>Errors of embedded fields\<close>

text \<open>
  C2. Build should return the first violation of any field, embedded ones included,
  and cache nothing. The code drops the error of an embedded struct: the field \<open>X\<close>
  of \<open>Inner\<close> carries the unknown clause \<^verbatim>\<open>bogus\<close>, and \<^verbatim>\<open>New\<close> on
  \<open>Inner\<close> itself returns the error and caches nothing, but \<^verbatim>\<open>New\<close> on
  \<open>Outer\<close>, which embeds \<open>Inner\<close>, returns a Model and caches it.
\<close>

theorem embedded_error_dropped:
  "fst (parseColumns textOrder [StructField ''X'' tInt False ''bogus''] (emptyModel ''Outer''))
     = Some (UnknownTag ''bogus'')
   \<and> fst (New textOrder (objOf Inner) emptyWorld) = Inl (UnknownTag ''bogus'')
   \<and> items (snd (New textOrder (objOf Inner) emptyWorld)) Inner = None
   \<and> fst (New textOrder (objOf Outer) emptyWorld) = Inr 0
   \<and> items (snd (New textOrder (objOf Outer) emptyWorld)) Outer = Some 0
   \<and> Cols (heap (snd (New textOrder (objOf Outer) emptyWorld)) ! 0) ''X'' = None
   \<and> Cols (heap (snd (New textOrder (objOf Outer) emptyWorld)) ! 0) ''Y'' = Some 1"
  by code_simp

section \<open>Constraint names\<close>

text \<open>
  C3. Constraint names should be distinct without regard to letter case across the
  namespaces. The registry is searched under the lower-cased name and written under
  the name as given, so a name with a capital letter is never found again: on
  \<open>Mixed\<close> the key index \<^verbatim>\<open>Idx\<close> and the unique index \<^verbatim>\<open>idx\<close> are both
  registered and \<^verbatim>\<open>New\<close> succeeds.
\<close>

theorem constraint_case_missed:
  "fst (New textOrder (objOf Mixed) emptyWorld) = Inr 0
   \<and> KeyIndexes (heap (snd (New textOrder (objOf Mixed) emptyWorld)) ! 0) ''Idx'' = Some [0]
   \<and> UniqueIndexes (heap (snd (New textOrder (objOf Mixed) emptyWorld)) ! 0) ''idx'' = Some [1]
   \<and> constraints (heap (snd (New textOrder (objOf Mixed) emptyWorld)) ! 0) ''Idx'' = Some index
   \<and> constraints (heap (snd (New textOrder (objOf Mixed) emptyWorld)) ! 0) ''idx'' = Some unique"
  by code_simp

section \<open>CREATE TABLE for the record of the spec\<close>

text \<open>
  C5 (amended). For the record type \<open>User\<close> (\<open>ID int\<close> tagged \<^verbatim>\<open>ai\<close>,
  \<open>Name string\<close> tagged \<^verbatim>\<open>len(50)\<close>, \<open>Score float64\<close> tagged
  \<^verbatim>\<open>len(5,2)\<close>) and every visit of the three tags, each of which has one clause,
  \<^verbatim>\<open>New\<close> builds \<open>userModel\<close>, and \<^verbatim>\<open>CreateTableSQL\<close> returns exactly one
  statement: the header, the auto-increment primary-key \<^verbatim>\<open>BIGINT\<close> column first,
  then the \<^verbatim>\<open>VARCHAR(50)\<close> column and the \<^verbatim>\<open>DOUBLE(5,2)\<close> column in the order
  in which the range loop visits the column mapping (either of the two may come first),
  and the closing parenthesis directly after the last column, with no comma before it.
\<close>

theorem CreateTableSQL_User:
  "parse (ColumnTag 0) ''ai'' = [(''ai'', [])]
     \<and> parse (ColumnTag 1) ''len(50)'' = [(''len'', [''50''])]
     \<and> parse (ColumnTag 2) ''len(5,2)'' = [(''len'', [''5'', ''2''])] \<and> items w User = None \<longrightarrow>
   (\<exists>w'. New parse (objOf User) w = (Inr (length (heap w)), w')
      \<and> heap w' ! length (heap w) = userModel)
   \<and> (\<forall>e. validEnum e userModel \<longrightarrow>
        CreateTableSQL e userModel =
          Inr [''CREATE TABLE IF NOT EXISTS {#User}({ID} BIGINT NOT NULL PRIMARY KEY AUTO_INCREMENT,'' @
               (if filter (\<lambda>k. k \<noteq> ''ID'') (colOrder e) = [''Name'', ''Score'']
                then ''{Name} VARCHAR(50) NOT NULL,{Score} DOUBLE(5,2) NOT NULL''
                else ''{Score} DOUBLE(5,2) NOT NULL,{Name} VARCHAR(50) NOT NULL'') @ '')''])"
proof (intro impI conjI allI)
  assume hyp: "parse (ColumnTag 0) ''ai'' = [(''ai'', [])]
     \<and> parse (ColumnTag 1) ''len(50)'' = [(''len'', [''50''])]
     \<and> parse (ColumnTag 2) ''len(5,2)'' = [(''len'', [''5'', ''2''])] \<and> items w User = None"
  then show "\<exists>w'. New parse (objOf User) w = (Inr (length (heap w)), w')
      \<and> heap w' ! length (heap w) = userModel"
    using User_New [of parse w] by simp
next
  fix e
  assume "validEnum e userModel"
  then have v: "distinct (colOrder e)" "set (colOrder e) = {''ID'', ''Name'', ''Score''}"
    "checkOrder e = []" "fkOrder e = []" "indexOrder e = []"
    by (simp_all add: userModel_valid)
  have "colOrder e \<in> {[''ID'', ''Name'', ''Score''], [''ID'', ''Score'', ''Name''],
      [''Name'', ''ID'', ''Score''], [''Name'', ''Score'', ''ID''],
      [''Score'', ''ID'', ''Name''], [''Score'', ''Name'', ''ID'']}"
    using perm3 [OF v(1) v(2)] by simp
  then consider "colOrder e = [''ID'', ''Name'', ''Score'']"
    | "colOrder e = [''ID'', ''Score'', ''Name'']"
    | "colOrder e = [''Name'', ''ID'', ''Score'']"
    | "colOrder e = [''Name'', ''Score'', ''ID'']"
    | "colOrder e = [''Score'', ''ID'', ''Name'']"
    | "colOrder e = [''Score'', ''Name'', ''ID'']"
    by blast
  then show "CreateTableSQL e userModel =
          Inr [''CREATE TABLE IF NOT EXISTS {#User}({ID} BIGINT NOT NULL PRIMARY KEY AUTO_INCREMENT,'' @
               (if filter (\<lambda>k. k \<noteq> ''ID'') (colOrder e) = [''Name'', ''Score'']
                then ''{Name} VARCHAR(50) NOT NULL,{Score} DOUBLE(5,2) NOT NULL''
                else ''{Score} DOUBLE(5,2) NOT NULL,{Name} VARCHAR(50) NOT NULL'') @ '')'']"
  proof cases
    case 1
    then have "e = \<lparr>colOrder = [''ID'', ''Name'', ''Score''], checkOrder = [], fkOrder = [], indexOrder = []\<rparr>"
      using v by (cases e) simp
    then show ?thesis
      using User_sql_orders(1) by simp
  next
    case 2
    then have "e = \<lparr>colOrder = [''ID'', ''Score'', ''Name''], checkOrder = [], fkOrder = [], indexOrder = []\<rparr>"
      using v by (cases e) simp
    then show ?thesis
      using User_sql_orders(4) by simp
  next
    case 3
    then have "e = \<lparr>colOrder = [''Name'', ''ID'', ''Score''], checkOrder = [], fkOrder = [], indexOrder = []\<rparr>"
      using v by (cases e) simp
    then show ?thesis
      using User_sql_orders(2) by simp
  next
    case 4
    then have "e = \<lparr>colOrder = [''Name'', ''Score'', ''ID''], checkOrder = [], fkOrder = [], indexOrder = []\<rparr>"
      using v by (cases e) simp
    then show ?thesis
      using User_sql_orders(3) by simp
  next
    case 5
    then have "e = \<lparr>colOrder = [''Score'', ''ID'', ''Name''], checkOrder = [], fkOrder = [], indexOrder = []\<rparr>"
      using v by (cases e) simp
    then show ?thesis
      using User_sql_orders(5) by simp
  next
    case 6
    then have "e = \<lparr>colOrder = [''Score'', ''Name'', ''ID''], checkOrder = [], fkOrder = [], indexOrder = []\<rparr>"
      using v by (cases e) simp
    then show ?thesis
      using User_sql_orders(6) by simp
  qed
qed

text \<open>The build from an empty cache, and the statement for two orders of the visit.\<close>

theorem CreateTableSQL_User_witness:
  "(\<exists>w'. New textOrder (objOf User) emptyWorld = (Inr 0, w') \<and> heap w' ! 0 = userModel)
   \<and> validEnum declaredOrder userModel
   \<and> CreateTableSQL declaredOrder userModel =
       Inr [''CREATE TABLE IF NOT EXISTS {#User}({ID} BIGINT NOT NULL PRIMARY KEY AUTO_INCREMENT,{Name} VARCHAR(50) NOT NULL,{Score} DOUBLE(5,2) NOT NULL)'']
   \<and> validEnum otherOrder userModel
   \<and> CreateTableSQL otherOrder userModel =
       Inr [''CREATE TABLE IF NOT EXISTS {#User}({ID} BIGINT NOT NULL PRIMARY KEY AUTO_INCREMENT,{Score} DOUBLE(5,2) NOT NULL,{Name} VARCHAR(50) NOT NULL)'']"
proof -
  have hyp: "textOrder (ColumnTag 0) ''ai'' = [(''ai'', [])]
     \<and> textOrder (ColumnTag 1) ''len(50)'' = [(''len'', [''50''])]
     \<and> textOrder (ColumnTag 2) ''len(5,2)'' = [(''len'', [''5'', ''2''])]
     \<and> items emptyWorld User = None"
    by (simp add: Parse_examples textOrder_def emptyWorld_def)
  have all: "(\<exists>w'. New textOrder (objOf User) emptyWorld = (Inr (length (heap emptyWorld)), w')
      \<and> heap w' ! length (heap emptyWorld) = userModel)
   \<and> (\<forall>e. validEnum e userModel \<longrightarrow>
        CreateTableSQL e userModel =
          Inr [''CREATE TABLE IF NOT EXISTS {#User}({ID} BIGINT NOT NULL PRIMARY KEY AUTO_INCREMENT,'' @
               (if filter (\<lambda>k. k \<noteq> ''ID'') (colOrder e) = [''Name'', ''Score'']
                then ''{Name} VARCHAR(50) NOT NULL,{Score} DOUBLE(5,2) NOT NULL''
                else ''{Score} DOUBLE(5,2) NOT NULL,{Name} VARCHAR(50) NOT NULL'') @ '')''])"
    using CreateTableSQL_User [of textOrder emptyWorld] hyp by blast
  have built: "\<exists>w'. New textOrder (objOf User) emptyWorld = (Inr 0, w') \<and> heap w' ! 0 = userModel"
    using all by (simp add: emptyWorld_def)
  have d: "CreateTableSQL declaredOrder userModel =
       Inr [''CREATE TABLE IF NOT EXISTS {#User}({ID} BIGINT NOT NULL PRIMARY KEY AUTO_INCREMENT,{Name} VARCHAR(50) NOT NULL,{Score} DOUBLE(5,2) NOT NULL)'']"
    using all orders_valid(1) by (simp add: declaredOrder_def)
  have o: "CreateTableSQL otherOrder userModel =
       Inr [''CREATE TABLE IF NOT EXISTS {#User}({ID} BIGINT NOT NULL PRIMARY KEY AUTO_INCREMENT,{Score} DOUBLE(5,2) NOT NULL,{Name} VARCHAR(50) NOT NULL)'']"
    using all orders_valid(2) by (simp add: otherOrder_def)
  show ?thesis
    using built d o orders_valid by blast
qed

text \<open>
  The claim fails when the range loop visits \<open>Score\<close> before \<open>Name\<close>: the
  statement has the \<^verbatim>\<open>DOUBLE(5,2)\<close> column before the \<^verbatim>\<open>VARCHAR(50)\<close> column.
\<close>

theorem column_order_counterexample:
  "fst (New textOrder (objOf User) emptyWorld) = Inr 0
   \<and> validEnum otherOrder (heap (snd (New textOrder (objOf User) emptyWorld)) ! 0)
   \<and> CreateTableSQL otherOrder (heap (snd (New textOrder (objOf User) emptyWorld)) ! 0) =
       Inr [''CREATE TABLE IF NOT EXISTS {#User}({ID} BIGINT NOT NULL PRIMARY KEY AUTO_INCREMENT,{Score} DOUBLE(5,2) NOT NULL,{Name} VARCHAR(50) NOT NULL)'']
   \<and> \<not> occursInOrder [''AUTO_INCREMENT'', ''VARCHAR(50)'', ''DOUBLE(5,2)'']
         ''CREATE TABLE IF NOT EXISTS {#User}({ID} BIGINT NOT NULL PRIMARY KEY AUTO_INCREMENT,{Score} DOUBLE(5,2) NOT NULL,{Name} VARCHAR(50) NOT NULL)''"
proof -
  have built: "fst (New textOrder (objOf User) emptyWorld) = Inr 0"
    by code_simp
  have sql: "CreateTableSQL otherOrder userModel =
       Inr [''CREATE TABLE IF NOT EXISTS {#User}({ID} BIGINT NOT NULL PRIMARY KEY AUTO_INCREMENT,{Score} DOUBLE(5,2) NOT NULL,{Name} VARCHAR(50) NOT NULL)'']"
    using User_sql_orders(5) by (simp add: otherOrder_def)
  have miss: "\<not> occursInOrder [''AUTO_INCREMENT'', ''VARCHAR(50)'', ''DOUBLE(5,2)'']
         ''CREATE TABLE IF NOT EXISTS {#User}({ID} BIGINT NOT NULL PRIMARY KEY AUTO_INCREMENT,{Score} DOUBLE(5,2) NOT NULL,{Name} VARCHAR(50) NOT NULL)''"
    by code_simp
  show ?thesis
    using built sql miss orders_valid(2) unfolding User_heap by blast
qed

section \<open>Struct types without a mapping\<close>

text \<open>
  C6. A host type outside the mapped categories should make the type rendering fail
  with the error that names the type. For a struct type that is none of the five
  wrappers, here \<open>Point\<close>, \<^verbatim>\<open>sqlType\<close> returns no error and writes nothing, and
  \<^verbatim>\<open>CreateTableSQL\<close> on the Model of \<open>Shape\<close>, whose field \<open>P\<close> is a
  \<open>Point\<close>, returns a statement whose column has no type text.
\<close>

theorem struct_type_not_rejected:
  "sqlType ''{P} '' (Some (mkCol Point 0 0)) = Inr ''{P} ''
   \<and> fst (New textOrder (objOf Shape) emptyWorld) = Inr 0
   \<and> CreateTableSQL \<lparr>colOrder = [''P''], checkOrder = [], fkOrder = [], indexOrder = []\<rparr>
        (heap (snd (New textOrder (objOf Shape) emptyWorld)) ! 0) =
       Inr [''CREATE TABLE IF NOT EXISTS {#Shape}({P}  NOT NULL)'']"
  by code_simp

section \<open>The cache\<close>




section \<open>Insertion into the column mapping\<close>

text \<open>
  C8. A column should be inserted into the column mapping of its Model under a name
  that is not in the mapping yet, so that a second field with the same final name
  does not silently replace the first column. The code writes
  \<^verbatim>\<open>m.Cols[col.Name] = col\<close> without looking the name up. On \<open>Dup\<close> the
  mapping holds \<open>A\<close> when the second column, renamed to \<open>A\<close>, is inserted;
  \<^verbatim>\<open>New\<close> reports no error, and afterwards \<open>A\<close> maps to the second column (of
  type string), while the first column (of type int) has the same name and is in the
  mapping no more. On \<open>DupPK\<close> the primary key still points to the column that was
  dropped from the mapping. The registry of foreign keys does look the key up: on
  \<open>FkTwice\<close> the second use of the name is rejected.
\<close>

theorem duplicate_name_overwrites:
  "Cols (snd (parseColumns textOrder [StructField ''A'' tInt False []] (emptyModel ''Dup'')))
      ''A'' = Some 0
   \<and> fst (New textOrder (objOf Dup) emptyWorld) = Inr 0
   \<and> Cols (heap (snd (New textOrder (objOf Dup) emptyWorld)) ! 0) ''A'' = Some 1
   \<and> Cols (heap (snd (New textOrder (objOf Dup) emptyWorld)) ! 0) ''B'' = None
   \<and> Name (deref (heap (snd (New textOrder (objOf Dup) emptyWorld)) ! 0) 0) = ''A''
   \<and> GoType (deref (heap (snd (New textOrder (objOf Dup) emptyWorld)) ! 0) 0) = Some tInt
   \<and> Name (deref (heap (snd (New textOrder (objOf Dup) emptyWorld)) ! 0) 1) = ''A''
   \<and> GoType (deref (heap (snd (New textOrder (objOf Dup) emptyWorld)) ! 0) 1) = Some tString
   \<and> fst (New textOrder (objOf DupPK) emptyWorld) = Inr 0
   \<and> PK (heap (snd (New textOrder (objOf DupPK) emptyWorld)) ! 0) = [0]
   \<and> Cols (heap (snd (New textOrder (objOf DupPK) emptyWorld)) ! 0) ''A'' = Some 1
   \<and> fst (New textOrder (objOf FkTwice) emptyWorld) = Inl (FKExists ''fk1'')"
  by code_simp

section \<open>The arity of \<^verbatim>\<open>fk\<close>\<close>

text \<open>
  C9. The clause \<^verbatim>\<open>fk\<close> should take three to five arguments and reject a sixth.
  \<^verbatim>\<open>setFK\<close> rejects fewer than three and has no upper bound: on \<open>Ref\<close>, whose
  field is tagged \<^verbatim>\<open>fk(fk1,t,c,CASCADE,RESTRICT,extra)\<close>, \<^verbatim>\<open>New\<close> succeeds and
  registers the foreign key with the fourth and fifth argument as its rules; the sixth
  is dropped. The other handlers of the same switch reject an argument too many.
\<close>

theorem fk_surplus_arguments_accepted:
  "fst (New textOrder (objOf Ref) emptyWorld) = Inr 0
   \<and> FK (heap (snd (New textOrder (objOf Ref) emptyWorld)) ! 0) ''fk1'' =
       Some \<lparr>Col = 0, RefTableName = ''t'', RefColName = ''c'',
             UpdateRule = ''CASCADE'', DeleteRule = ''RESTRICT''\<rparr>
   \<and> fst (setFK (oneCol tInt) 0 [''fk1'', ''t'', ''c'', ''CASCADE'', ''RESTRICT'', ''extra'']) = None
   \<and> fst (setFK (oneCol tInt) 0 [''fk1'', ''t'']) = Some FKArity
   \<and> fst (applyTag (oneCol tInt) 0 ''name'' [''a'', ''b'']) = Some (NameArity [''a'', ''b''])
   \<and> fst (setIndex (oneCol tInt) 0 [''a'', ''b'']) = Some (IndexArity ''Ver'' [''a'', ''b''])
   \<and> fst (setUnique (oneCol tInt) 0 [''a'', ''b'']) = Some (UniqueArity ''Ver'' [''a'', ''b''])
   \<and> fst (setPK (oneCol tInt) 0 [''a'']) = Some (PKArity ''Ver'' [''a''])
   \<and> fst (setAI (oneCol tInt) 0 [''a'']) = Some (AIArity ''Ver'' [''a''])
   \<and> fst (setDefault (oneCol tInt) 0 [''a'', ''b'']) = Some (DefaultArity ''Ver'' [''a'', ''b''])
   \<and> fst (setOCC (oneCol tInt) 0 [''true'', ''b'']) = Some (OCCArity ''Ver'' [''true'', ''b''])"
  by code_simp

section \<open>The clause \<^verbatim>\<open>occ\<close>\<close>

text \<open>
  C10. \<^verbatim>\<open>setOCC\<close> checks the column and the Model before it reads its argument.
  Whatever the arguments are, the clause fails when the column is the auto-increment
  column or nullable, when the Model has an optimistic-lock column already, and when
  the column's kind is not an integer kind. With the argument \<^verbatim>\<open>false\<close> the Model
  is never changed, and when the checks pass the clause succeeds and \<open>OCC\<close> stays
  unset. An argument that \<^verbatim>\<open>ParseBool\<close> rejects makes the clause fail.
\<close>

theorem setOCC_checks_first:
  "(IsAI m c \<or> Nullable (deref m c) \<longrightarrow> setOCC m c vals = (Some OCCOnAIOrNullable, m))
   \<and> (\<not> IsAI m c \<and> \<not> Nullable (deref m c) \<and> OCC m \<noteq> None \<longrightarrow>
        setOCC m c vals = (Some OCCExists, m))
   \<and> (\<not> IsAI m c \<and> \<not> Nullable (deref m c) \<and> OCC m = None \<and>
        GoType (deref m c) = Some t \<and> \<not> isIntKind (kindOf t) \<longrightarrow>
        setOCC m c vals = (Some OCCNotInt, m))
   \<and> (\<not> IsAI m c \<and> \<not> Nullable (deref m c) \<and> OCC m = None \<and>
        GoType (deref m c) = Some t \<and> isIntKind (kindOf t) \<longrightarrow>
        setOCC m c [''false''] = (None, m))
   \<and> snd (setOCC m c [''false'']) = m
   \<and> (ParseBool v = Inl e \<longrightarrow> fst (setOCC m c [v]) \<noteq> None)"
  by (auto simp: setOCC_def ParseBool_def split: option.splits)

theorem setOCC_checks_first_witness:
  "setOCC (oneCol tInt) 0 [''false''] = (None, oneCol tInt)
   \<and> OCC (snd (setOCC (oneCol tInt) 0 [''false''])) = None
   \<and> setOCC ((oneCol tInt)\<lparr>AI := Some 0\<rparr>) 0 [''false''] =
        (Some OCCOnAIOrNullable, (oneCol tInt)\<lparr>AI := Some 0\<rparr>)
   \<and> setOCC (snd (setNullable (oneCol tInt) 0 [])) 0 [''false''] =
        (Some OCCOnAIOrNullable, snd (setNullable (oneCol tInt) 0 []))
   \<and> setOCC ((oneCol tInt)\<lparr>OCC := Some 7\<rparr>) 0 [''false''] =
        (Some OCCExists, (oneCol tInt)\<lparr>OCC := Some 7\<rparr>)
   \<and> setOCC (oneCol tString) 0 [''false''] = (Some OCCNotInt, oneCol tString)
   \<and> fst (setOCC (oneCol tInt) 0 [''maybe'']) \<noteq> None"
  using
    setOCC_checks_first [of "oneCol tInt" 0 "[''false'']" tInt "''maybe''"
      "ParseBoolSyntax ''maybe''"]
    setOCC_checks_first [of "(oneCol tInt)\<lparr>AI := Some 0\<rparr>" 0 "[''false'']"]
    setOCC_checks_first [of "snd (setNullable (oneCol tInt) 0 [])" 0 "[''false'']"]
    setOCC_checks_first [of "(oneCol tInt)\<lparr>OCC := Some 7\<rparr>" 0 "[''false'']"]
    setOCC_checks_first [of "oneCol tString" 0 "[''false'']" tString]
  by (simp add: oneCol_simps IsAI_def deref_def store_def setNullable_def tInt_def tString_def
      isIntKind_def ParseBool_def)


end
